theory Spec2Isabelle
  imports Complex_Main
begin

section \<open>terminews: a shallow embedding of src/index.js\<close>

text \<open>
  The program is a command-line client of a news service. Each of its three commands starts
  a progress indicator, issues one HTTP GET through axios and prints either the rendered
  answer or a failure message. The embedding keeps the functions of \<^verbatim>\<open>src/index.js\<close>
  under their own names. What the JavaScript does to the outside world (console output,
  the indicator, the request, the exit of the process) is recorded as a list of events, in
  the order in which it happens; an exception that escapes a promise handler is the
  \<open>fault\<close> component of an outcome.
\<close>

subsection \<open>JavaScript values\<close>

text \<open>
  The values that reach the functions: an option that commander did not see is
  \<^verbatim>\<open>undefined\<close>, one it saw is a string; a field of a JSON object of the service is a
  string or \<^verbatim>\<open>null\<close>.
\<close>

datatype jsval = Undefined | Null | Str string

text \<open>\<^verbatim>\<open>String(v)\<close>, as template literals, chalk and \<^verbatim>\<open>console.log\<close> apply it.\<close>

fun ToString :: "jsval \<Rightarrow> string" where
  "ToString Undefined = ''undefined''"
| "ToString Null = ''null''"
| "ToString (Str s) = s"

text \<open>
  A JavaScript number: not-a-number, the two infinities, or a finite value (every finite
  double is a rational).
\<close>

datatype jsnum = NaN | NegInf | PosInf | Fin rat

text \<open>
  \<^verbatim>\<open>ToNumber\<close> of ECMAScript. The numeric reading of a string (\<^verbatim>\<open>StringToNumber\<close>) belongs to
  the host and is the parameter \<open>s2n\<close>; \<^verbatim>\<open>undefined\<close> reads as NaN and \<^verbatim>\<open>null\<close> as 0.
\<close>

fun ToNumber :: "(string \<Rightarrow> jsnum) \<Rightarrow> jsval \<Rightarrow> jsnum" where
  "ToNumber s2n Undefined = NaN"
| "ToNumber s2n Null = Fin 0"
| "ToNumber s2n (Str s) = s2n s"

text \<open>\<^verbatim>\<open>Math.min(a, b)\<close>: NaN as soon as one argument is NaN, else the smaller one.\<close>

fun Math_min :: "jsnum \<Rightarrow> jsnum \<Rightarrow> jsnum" where
  "Math_min NaN b = NaN"
| "Math_min a NaN = NaN"
| "Math_min NegInf b = NegInf"
| "Math_min a NegInf = NegInf"
| "Math_min PosInf b = b"
| "Math_min a PosInf = a"
| "Math_min (Fin x) (Fin y) = Fin (min x y)"

subsection \<open>\<^verbatim>\<open>encodeURIComponent\<close>\<close>

text \<open>
  A string is the list of its UTF-8 bytes. \<^verbatim>\<open>encodeURIComponent\<close> keeps the unreserved
  characters \<^verbatim>\<open>A-Z a-z 0-9 - _ . ! ~ * ' ( )\<close> and writes every other byte as \<^verbatim>\<open>%XX\<close>, two
  upper-case hexadecimal digits.
\<close>

definition uri_unreserved :: "char \<Rightarrow> bool" where
  "uri_unreserved c =
     (c \<in> set (''ABCDEFGHIJKLMNOPQRSTUVWXYZabcdefghijklmnopqrstuvwxyz0123456789-_.!~*()''
               @ [CHR 0x27]))"

definition hex_digit :: "nat \<Rightarrow> char" where
  "hex_digit n = ''0123456789ABCDEF'' ! (n mod 16)"

definition percent_escape :: "char \<Rightarrow> string" where
  "percent_escape c =
     [CHR ''%'', hex_digit ((of_char c :: nat) div 16), hex_digit ((of_char c :: nat) mod 16)]"

definition encodeURIComponent :: "string \<Rightarrow> string" where
  "encodeURIComponent s =
     concat (map (\<lambda>c. if uri_unreserved c then [c] else percent_escape c) s)"

text \<open>The value of a hexadecimal digit, and the reading of percent escapes back into bytes.\<close>

definition hex_value :: "char \<Rightarrow> nat option" where
  "hex_value c =
     (if c \<in> set ''0123456789'' then Some ((of_char c :: nat) - 48)
      else if c \<in> set ''ABCDEF'' then Some ((of_char c :: nat) - 55)
      else if c \<in> set ''abcdef'' then Some ((of_char c :: nat) - 87)
      else None)"

fun percent_decode :: "string \<Rightarrow> string option" where
  "percent_decode [] = Some []"
| "percent_decode (c # cs) =
     (if c = CHR ''%'' then
        (case cs of
           h # l # rest \<Rightarrow>
             (case (hex_value h, hex_value l, percent_decode rest) of
                (Some a, Some b, Some r) \<Rightarrow> Some (char_of (16 * a + b) # r)
              | _ \<Rightarrow> None)
         | _ \<Rightarrow> None)
      else map_option ((#) c) (percent_decode cs))"

subsection \<open>Styled console text\<close>

text \<open>
  chalk wraps a string in terminal styles. A piece of console text is a list of segments,
  each a string with the styles that apply to it, outermost first; concatenation of
  strings is \<open>@\<close>. A style applied around already styled text applies to each segment.
\<close>

datatype style = Bold | Underline | Italic | Red | Green | Yellow | Cyan | BgBlue

type_synonym rich = "(style list \<times> string) list"

definition plain :: "string \<Rightarrow> rich" where
  "plain s = [([], s)]"

definition chalk :: "style list \<Rightarrow> rich \<Rightarrow> rich" where
  "chalk sty t = map (\<lambda>(st, s). (sty @ st, s)) t"

text \<open>The characters of a piece of text, styles dropped.\<close>

definition characters :: "rich \<Rightarrow> string" where
  "characters t = concat (map snd t)"

text \<open>A natural number in decimal, as \<^verbatim>\<open>String(n)\<close> writes an array length.\<close>

fun nat_to_string :: "nat \<Rightarrow> string" where
  "nat_to_string n =
     (if n < 10 then [''0123456789'' ! n]
      else nat_to_string (n div 10) @ [''0123456789'' ! (n mod 10)])"

subsection \<open>Requests, answers and events\<close>

text \<open>
  An article and a news source, as the JSON of the service gives them. The fields of a
  source carry the prefix \<open>src_\<close> (its \<^verbatim>\<open>id\<close> and \<^verbatim>\<open>name\<close> would hide constants of HOL).
\<close>

record article =
  author :: jsval
  title :: jsval
  description :: jsval
  url :: jsval
  publishedAt :: jsval

record news_source =
  src_name :: jsval
  src_description :: jsval
  src_url :: jsval
  src_category :: jsval
  src_language :: jsval
  src_country :: jsval
  src_id :: jsval

text \<open>
  The value of a query parameter in the \<^verbatim>\<open>params\<close> object handed to axios: a string or
  \<^verbatim>\<open>undefined\<close>, a number, or an array.
\<close>

datatype pval = PVal jsval | PNum jsnum | PArr "jsval list"

record request =
  url :: string
  params :: "(string \<times> pval) list"

text \<open>
  axios leaves every parameter whose value is \<^verbatim>\<open>null\<close> or \<^verbatim>\<open>undefined\<close> out of the URL
  it builds, and renders the others in the order of the object's keys. The list below is
  of the parameters it renders, each still under the key and with the value of the
  \<^verbatim>\<open>params\<close> object (on the wire the value is escaped, and the key of an array gets
  \<^verbatim>\<open>[]\<close> appended).
\<close>

definition axios_rendered :: "(string \<times> pval) list \<Rightarrow> (string \<times> pval) list" where
  "axios_rendered ps = filter (\<lambda>(k, v). v \<noteq> PVal Undefined \<and> v \<noteq> PVal Null) ps"

text \<open>
  The body of an answer (\<^verbatim>\<open>response.data\<close>) with its two sequences, and the two ways a
  request fails: with an answer whose status axios rejects (\<^verbatim>\<open>err.response.status\<close>), or
  with no answer at all (\<^verbatim>\<open>err.response\<close> is \<^verbatim>\<open>undefined\<close>).
\<close>

record body =
  articles :: "article list"
  sources :: "news_source list"

datatype failure = HttpStatus nat | NoResponse

fun response_status :: "failure \<Rightarrow> nat option" where
  "response_status (HttpStatus n) = Some n"
| "response_status NoResponse = None"

text \<open>The remote service: what each request is answered with.\<close>

type_synonym transport = "request \<Rightarrow> failure + body"

datatype event =
    SpinnerStart rich
  | SpinnerStop
  | Log rich
  | Error rich
  | Request request
  | OutputHelp
  | Exit nat

datatype fault = TypeError

text \<open>
  What a piece of code did and whether it threw. \<open>seq\<close> runs two pieces one after the
  other: the second does not run when the first has thrown.
\<close>

type_synonym outcome = "event list \<times> fault option"

fun seq :: "outcome \<Rightarrow> outcome \<Rightarrow> outcome" where
  "seq (es, None) (fs, f) = (es @ fs, f)"
| "seq (es, Some x) _ = (es, Some x)"

subsection \<open>Configuration\<close>

definition NEWS_API_URL :: string where
  "NEWS_API_URL = ''https://newsapi.org''"

definition TOP_HEADLINES_URL :: string where
  "TOP_HEADLINES_URL = NEWS_API_URL @ ''/v2/top-headlines''"

definition SOURCES_URL :: string where
  "SOURCES_URL = NEWS_API_URL @ ''/v2/sources''"

definition SEARCH_URL :: string where
  "SEARCH_URL = NEWS_API_URL @ ''/v2/everything''"

text \<open>
  \<^verbatim>\<open>process.env.API_KEY || "72ef..."\<close>: the variable when it is set and not empty, else the
  built-in key.
\<close>

definition API_KEY :: "string option \<Rightarrow> string" where
  "API_KEY env =
     (case env of
        None \<Rightarrow> ''72ef587891b7421ab53dd1711732e327''
      | Some k \<Rightarrow> if k = [] then ''72ef587891b7421ab53dd1711732e327'' else k)"

subsection \<open>The gateway\<close>

text \<open>
  Each of the three functions builds one request, hands it to axios (the event
  \<open>Request\<close>) and resolves to a sequence of the body, or rejects with axios's error.
\<close>

definition getLatestStories_request ::
  "(string \<Rightarrow> jsnum) \<Rightarrow> string \<Rightarrow> string \<Rightarrow> jsval \<Rightarrow> request" where
  "getLatestStories_request s2n key source limit =
     \<lparr>url = TOP_HEADLINES_URL,
      params = [(''apiKey'', PVal (Str key)),
                (''sources'', PArr [Str source]),
                (''pageSize'', PNum (Math_min (Fin 100) (ToNumber s2n limit)))]\<rparr>"

definition getLatestStories ::
  "(string \<Rightarrow> jsnum) \<Rightarrow> transport \<Rightarrow> string \<Rightarrow> string \<Rightarrow> jsval
     \<Rightarrow> event list \<times> (failure + article list)" where
  "getLatestStories s2n net key source limit =
     (let req = getLatestStories_request s2n key source limit
      in ([Request req], map_sum (\<lambda>e. e) articles (net req)))"

definition getNewsSources_request :: "string \<Rightarrow> jsval \<Rightarrow> request" where
  "getNewsSources_request key category =
     \<lparr>url = SOURCES_URL,
      params = [(''apiKey'', PVal (Str key)), (''category'', PVal category)]\<rparr>"

definition getNewsSources ::
  "transport \<Rightarrow> string \<Rightarrow> jsval \<Rightarrow> event list \<times> (failure + news_source list)" where
  "getNewsSources net key category =
     (let req = getNewsSources_request key category
      in ([Request req], map_sum (\<lambda>e. e) sources (net req)))"

definition searchStories_request :: "string \<Rightarrow> string \<Rightarrow> request" where
  "searchStories_request key searchTerm =
     \<lparr>url = SEARCH_URL,
      params = [(''apiKey'', PVal (Str key)),
                (''q'', PVal (Str (encodeURIComponent searchTerm)))]\<rparr>"

definition searchStories ::
  "transport \<Rightarrow> string \<Rightarrow> string \<Rightarrow> event list \<times> (failure + article list)" where
  "searchStories net key searchTerm =
     (let req = searchStories_request key searchTerm
      in ([Request req], map_sum (\<lambda>e. e) articles (net req)))"

subsection \<open>The presenter\<close>

text \<open>
  \<open>fmt_date v\<close> is \<^verbatim>\<open>String(new Date(v))\<close>, which depends on the host's time zone. The
  \<^verbatim>\<open>toLocaleString()\<close> of the source is applied to the string chalk returns, which it
  leaves as it is.
\<close>

definition printStory :: "(jsval \<Rightarrow> string) \<Rightarrow> article \<Rightarrow> event list" where
  "printStory fmt_date a =
     [Log (chalk [Bold, Underline, Yellow] (plain (ToString (title a)))),
      Log (plain ''by '' @ chalk [Green] (plain (ToString (author a)))),
      Log (chalk [Italic] (plain (ToString (description a)))),
      Log (chalk [Bold] (plain ''Link:'') @ plain '' '' @ chalk [Cyan] (plain (ToString (article.url a)))),
      Log (chalk [Bold] (plain ''Published'') @ plain '' ''
           @ chalk [Red] (plain (fmt_date (publishedAt a))) @ plain '' \<newline>'')]"

definition printStories :: "(jsval \<Rightarrow> string) \<Rightarrow> article list \<Rightarrow> event list" where
  "printStories fmt_date stories =
     (if length stories = 0
      then [Log (chalk [Bold, Red] (plain ''\<newline> No results found.''))]
      else concat (map (printStory fmt_date) stories))"

definition printSource :: "news_source \<Rightarrow> event list" where
  "printSource s =
     [Log (chalk [Bold, Underline, Green] (plain (ToString (src_name s)))),
      Log (chalk [Bold] (plain ''Fetch Id (use this to get stories)'') @ plain '': ''
           @ chalk [Bold, Cyan] (plain (ToString (src_id s)))),
      Log (chalk [Italic] (plain (ToString (src_description s)))),
      Log (chalk [Bold] (plain ''Website URL:'') @ plain '' ''
           @ chalk [Cyan] (plain (ToString (src_url s)))),
      Log (chalk [Bold] (plain ''Language'') @ plain '' '' @ plain (ToString (src_language s))),
      Log (chalk [Bold] (plain ''Country'') @ plain '' '' @ plain (ToString (src_country s))
           @ plain '' \<newline>'')]"

definition printSources :: "news_source list \<Rightarrow> event list" where
  "printSources srcs = concat (map printSource srcs)"

subsection \<open>The error reporter\<close>

text \<open>
  \<^verbatim>\<open>throwError(error, spinner)\<close> writes the message to the error stream and then calls
  \<^verbatim>\<open>spinner.stop()\<close>. The second argument is \<open>None\<close> when the caller passes none: the
  call of \<^verbatim>\<open>stop\<close> on \<^verbatim>\<open>undefined\<close> then throws a TypeError, after the message is out.
\<close>

datatype spinner = Spinner rich

definition throwError :: "string \<Rightarrow> spinner option \<Rightarrow> outcome" where
  "throwError msg sp =
     seq ([Error (plain ''\<newline>'' @ chalk [Bold, Red] (plain msg))], None)
         (case sp of None \<Rightarrow> ([], Some TypeError) | Some _ \<Rightarrow> ([SpinnerStop], None))"

subsection \<open>The commands\<close>

text \<open>
  An action starts the indicator and calls the gateway; the handlers attached to the
  promise run once the request has settled. An outcome with a fault is a rejection that no
  handler took.
\<close>

definition fetch_spinner :: "string \<Rightarrow> spinner" where
  "fetch_spinner source =
     Spinner (chalk [Green] (plain ''fetching latest stories from ''
                             @ chalk [Bold, Underline, Green, BgBlue] (plain source)))"

definition fetch_action ::
  "(string \<Rightarrow> jsnum) \<Rightarrow> (jsval \<Rightarrow> string) \<Rightarrow> transport \<Rightarrow> string \<Rightarrow> string \<Rightarrow> jsval
     \<Rightarrow> outcome" where
  "fetch_action s2n fmt_date net key source limit =
     (case fetch_spinner source of Spinner label \<Rightarrow>
        (case getLatestStories s2n net key source limit of
           (sent, Inr stories) \<Rightarrow>
             (SpinnerStart label # sent
                @ [SpinnerStop, Log (plain (ToString limit))] @ printStories fmt_date stories,
              None)
         | (sent, Inl err) \<Rightarrow>
             seq (SpinnerStart label # sent, None)
                 (throwError
                    ''There has been a problem fetching your news stories. Please try again later.''
                    (Some (Spinner label)))))"

definition sources_spinner :: spinner where
  "sources_spinner = Spinner (plain ''Fetching news sources..'')"

definition sources_action :: "transport \<Rightarrow> string \<Rightarrow> jsval \<Rightarrow> outcome" where
  "sources_action net key category =
     (case sources_spinner of Spinner label \<Rightarrow>
        (case getNewsSources net key category of
           (sent, Inr srcs) \<Rightarrow>
             (SpinnerStart label # sent
                @ [Log (plain ''We currently support these ''
                        @ chalk [Bold] (plain (nat_to_string (length srcs)))
                        @ plain '' news sources: \<newline>'')]
                @ printSources srcs @ [SpinnerStop],
              None)
         | (sent, Inl err) \<Rightarrow>
             seq (SpinnerStart label # sent, None)
                 (seq (throwError
                         ''There has been a problem fetching your news sources. Please try again later.''
                         None)
                      ([SpinnerStop], None))))"

definition search_spinner :: "string \<Rightarrow> spinner" where
  "search_spinner t =
     Spinner (plain ''Scraping all news sources for stories that match term ''
              @ chalk [Bold] (plain t) @ plain ''...'')"

text \<open>
  The \<^verbatim>\<open>catch\<close> handler of the search command. It reads \<^verbatim>\<open>err.response.status\<close>; on an
  error without \<^verbatim>\<open>response\<close> that read throws.
\<close>

definition search_catch :: "spinner \<Rightarrow> failure \<Rightarrow> outcome" where
  "search_catch sp err =
     (case response_status err of
        None \<Rightarrow> ([], Some TypeError)
      | Some status \<Rightarrow>
          if status = 403
          then throwError ''You have hit the rate limit on the News API. Please try again later.''
                          (Some sp)
          else throwError ''There has been a problem executing your search. Please try again later.''
                          (Some sp))"

definition search_action :: "(jsval \<Rightarrow> string) \<Rightarrow> transport \<Rightarrow> string \<Rightarrow> string \<Rightarrow> outcome" where
  "search_action fmt_date net key t =
     (case search_spinner t of Spinner label \<Rightarrow>
        (case searchStories net key t of
           (sent, Inr stories) \<Rightarrow>
             (SpinnerStart label # sent @ printStories fmt_date stories @ [SpinnerStop], None)
         | (sent, Inl err) \<Rightarrow>
             seq (SpinnerStart label # sent, None) (search_catch (Spinner label) err)))"

subsection \<open>The command router\<close>

text \<open>
  What commander makes of the command line: no operand at all, one of the three commands
  with its argument and option, or operands (a first one and the rest) that name no
  command. After \<^verbatim>\<open>program.parse\<close> the list \<^verbatim>\<open>program.args\<close> holds what the action was
  called with, the command object last, or the operands that matched nothing: it is empty
  exactly when no operand was given.
\<close>

datatype invocation =
    NoArguments
  | FetchCmd string jsval
  | SourcesCmd jsval
  | SearchCmd string
  | NoMatch string "string list"

fun program_args_length :: "invocation \<Rightarrow> nat" where
  "program_args_length NoArguments = 0"
| "program_args_length (FetchCmd source limit) = 2"
| "program_args_length (SourcesCmd category) = 1"
| "program_args_length (SearchCmd t) = 2"
| "program_args_length (NoMatch x xs) = Suc (length xs)"

fun dispatch ::
  "(string \<Rightarrow> jsnum) \<Rightarrow> (jsval \<Rightarrow> string) \<Rightarrow> transport \<Rightarrow> string \<Rightarrow> invocation \<Rightarrow> outcome" where
  "dispatch s2n fmt_date net key NoArguments = ([], None)"
| "dispatch s2n fmt_date net key (FetchCmd source limit) =
     fetch_action s2n fmt_date net key source limit"
| "dispatch s2n fmt_date net key (SourcesCmd category) = sources_action net key category"
| "dispatch s2n fmt_date net key (SearchCmd t) = search_action fmt_date net key t"
| "dispatch s2n fmt_date net key (NoMatch x xs) = ([], None)"

text \<open>
  The program: \<^verbatim>\<open>program.parse(process.argv)\<close> runs the action of the command, and
  \<^verbatim>\<open>program.help()\<close>, which prints the usage text and ends the process with code 0, is
  called when \<^verbatim>\<open>program.args\<close> is empty.
\<close>

definition run_program ::
  "(string \<Rightarrow> jsnum) \<Rightarrow> (jsval \<Rightarrow> string) \<Rightarrow> transport \<Rightarrow> string option \<Rightarrow> invocation
     \<Rightarrow> outcome" where
  "run_program s2n fmt_date net env cmd =
     (case dispatch s2n fmt_date net (API_KEY env) cmd of
        (es, f) \<Rightarrow>
          (es @ (if program_args_length cmd = 0 then [OutputHelp, Exit 0] else []), f))"

text \<open>Observations on a list of events.\<close>

fun requests_of :: "event list \<Rightarrow> request list" where
  "requests_of [] = []"
| "requests_of (Request r # es) = r # requests_of es"
| "requests_of (e # es) = requests_of es"

fun errors_of :: "event list \<Rightarrow> rich list" where
  "errors_of [] = []"
| "errors_of (Error m # es) = m # errors_of es"
| "errors_of (e # es) = errors_of es"

fun logs_of :: "event list \<Rightarrow> rich list" where
  "logs_of [] = []"
| "logs_of (Log m # es) = m # logs_of es"
| "logs_of (e # es) = logs_of es"

fun spinner_active :: "bool \<Rightarrow> event list \<Rightarrow> bool" where
  "spinner_active b [] = b"
| "spinner_active b (SpinnerStart label # es) = spinner_active True es"
| "spinner_active b (SpinnerStop # es) = spinner_active False es"
| "spinner_active b (e # es) = spinner_active b es"

section \<open>Properties\<close>

subsection \<open>Percent escapes\<close>

lemma lt16_cases:
  "k < (16::nat) \<Longrightarrow> k = 0 \<or> k = 1 \<or> k = 2 \<or> k = 3 \<or> k = 4 \<or> k = 5 \<or> k = 6 \<or> k = 7
    \<or> k = 8 \<or> k = 9 \<or> k = 10 \<or> k = 11 \<or> k = 12 \<or> k = 13 \<or> k = 14 \<or> k = 15"
  by presburger

lemma hex_value_hex_digit:
  assumes "k < 16"
  shows "hex_value (hex_digit k) = Some k"
  using lt16_cases [OF assms] by (elim disjE) (simp_all add: hex_value_def hex_digit_def)

lemma hex_digit_unreserved: "uri_unreserved (hex_digit k)"
proof -
  have "k mod 16 < 16" by simp
  then have "hex_digit k \<in> set ''0123456789ABCDEF''"
    unfolding hex_digit_def by (intro nth_mem) simp
  then show ?thesis
    by (auto simp add: uri_unreserved_def)
qed

lemma of_char_lt_256: "(of_char c :: nat) < 256"
  by (cases c) simp

lemma percent_decode_escape:
  "percent_decode (percent_escape c @ rest) = map_option ((#) c) (percent_decode rest)"
proof -
  have d: "(of_char c :: nat) div 16 < 16"
    using of_char_lt_256 [of c] by (simp add: div_less_iff_less_mult)
  have m: "(of_char c :: nat) mod 16 < 16" by simp
  have "char_of (16 * ((of_char c :: nat) div 16) + of_char c mod 16) = c"
    by simp
  then show ?thesis
    using hex_value_hex_digit [OF d] hex_value_hex_digit [OF m]
    by (cases "percent_decode rest") (simp_all add: percent_escape_def)
qed

lemma unreserved_not_percent: "uri_unreserved c \<Longrightarrow> c \<noteq> CHR ''%''"
  by (auto simp: uri_unreserved_def)

lemma encodeURIComponent_Cons:
  "encodeURIComponent (c # s) =
     (if uri_unreserved c then [c] else percent_escape c) @ encodeURIComponent s"
  by (simp add: encodeURIComponent_def)

lemma percent_decode_encode: "percent_decode (encodeURIComponent s) = Some s"
proof (induction s)
  case Nil
  then show ?case by (simp add: encodeURIComponent_def)
next
  case (Cons c s)
  show ?case
  proof (cases "uri_unreserved c")
    case True
    then show ?thesis
      using Cons unreserved_not_percent [OF True] by (simp add: encodeURIComponent_Cons)
  next
    case False
    then show ?thesis
      using Cons by (simp add: encodeURIComponent_Cons percent_decode_escape)
  qed
qed

lemma encodeURIComponent_safe:
  "list_all (\<lambda>c. uri_unreserved c \<or> c = CHR ''%'') (encodeURIComponent s)"
  by (induction s)
     (simp_all add: encodeURIComponent_Cons percent_escape_def hex_digit_unreserved,
      simp add: encodeURIComponent_def)

subsection \<open>What the commands do, case by case\<close>

lemma throwError_with_spinner:
  "throwError msg (Some sp) =
     ([Error (plain ''\<newline>'' @ chalk [Bold, Red] (plain msg)), SpinnerStop], None)"
  by (simp add: throwError_def)

lemma throwError_without_spinner:
  "throwError msg None = ([Error (plain ''\<newline>'' @ chalk [Bold, Red] (plain msg))], Some TypeError)"
  by (simp add: throwError_def)

lemma requests_of_append: "requests_of (xs @ ys) = requests_of xs @ requests_of ys"
  by (induction xs rule: requests_of.induct) simp_all

lemma requests_of_printStories: "requests_of (printStories fmt_date stories) = []"
proof -
  have "requests_of (concat (map (printStory fmt_date) xs)) = []" for xs
    by (induction xs) (simp_all add: requests_of_append printStory_def)
  then show ?thesis by (simp add: printStories_def)
qed

lemma fetch_action_failure:
  "net (getLatestStories_request s2n key source limit) = Inl err \<Longrightarrow>
   fetch_action s2n fmt_date net key source limit =
     ([SpinnerStart (chalk [Green] (plain ''fetching latest stories from ''
                       @ chalk [Bold, Underline, Green, BgBlue] (plain source))),
       Request (getLatestStories_request s2n key source limit),
       Error (plain ''\<newline>'' @ chalk [Bold, Red] (plain
         ''There has been a problem fetching your news stories. Please try again later.'')),
       SpinnerStop],
      None)"
  by (simp add: fetch_action_def fetch_spinner_def getLatestStories_def Let_def
        throwError_with_spinner)

lemma fetch_action_success:
  "net (getLatestStories_request s2n key source limit) = Inr b \<Longrightarrow>
   fetch_action s2n fmt_date net key source limit =
     ([SpinnerStart (chalk [Green] (plain ''fetching latest stories from ''
                       @ chalk [Bold, Underline, Green, BgBlue] (plain source))),
       Request (getLatestStories_request s2n key source limit),
       SpinnerStop,
       Log (plain (ToString limit))]
      @ printStories fmt_date (articles b),
      None)"
  by (simp add: fetch_action_def fetch_spinner_def getLatestStories_def Let_def)

lemma fetch_action_requests:
  "requests_of (fst (fetch_action s2n fmt_date net key source limit))
     = [getLatestStories_request s2n key source limit]"
proof (cases "net (getLatestStories_request s2n key source limit)")
  case (Inl err)
  then show ?thesis by (simp add: fetch_action_failure)
next
  case (Inr b)
  then show ?thesis
    by (simp add: fetch_action_success requests_of_append requests_of_printStories)
qed

lemma search_action_status_failure:
  "net (searchStories_request key t) = Inl (HttpStatus st) \<Longrightarrow>
   search_action fmt_date net key t =
     ([SpinnerStart (plain ''Scraping all news sources for stories that match term ''
                     @ chalk [Bold] (plain t) @ plain ''...''),
       Request (searchStories_request key t),
       Error (plain ''\<newline>'' @ chalk [Bold, Red] (plain
           (if st = 403
            then ''You have hit the rate limit on the News API. Please try again later.''
            else ''There has been a problem executing your search. Please try again later.''))),
       SpinnerStop],
      None)"
  by (simp add: search_action_def search_spinner_def searchStories_def search_catch_def Let_def
        throwError_with_spinner)

subsection \<open>The gateway\<close>

text \<open>
  Claim C1, as the code has it. The fetch command issues exactly one request, whatever
  the answer. When a limit is given and the host reads it as the finite number \<open>n\<close>, the
  request carries \<open>pageSize = min(100, n)\<close>. When no limit is given, \<^verbatim>\<open>Math.min(100, undefined)\<close>
  is NaN, and the request still carries a \<open>pageSize\<close> parameter, with that value: no number
  caps the page, but the parameter is not left out.
\<close>

theorem fetch_one_request_pageSize:
  "requests_of (fst (fetch_action s2n fmt_date net key source limit))
     = [getLatestStories_request s2n key source limit]
   \<and> (s2n l = Fin n \<longrightarrow>
        map_of (axios_rendered (params (getLatestStories_request s2n key source (Str l))))
          ''pageSize'' = Some (PNum (Fin (min 100 n))))
   \<and> map_of (axios_rendered (params (getLatestStories_request s2n key source Undefined)))
        ''pageSize'' = Some (PNum NaN)"
  by (simp add: fetch_action_requests getLatestStories_request_def axios_rendered_def)

text \<open>
  The claim at a concrete input: a limit of 250 is capped to 100, in the one request that
  is issued.
\<close>

theorem fetch_one_request_pageSize_witness:
  "requests_of (fst (fetch_action (\<lambda>s. Fin 250) (\<lambda>v. []) (\<lambda>r. Inl NoResponse) ''k''
      ''bbc-news'' (Str ''250'')))
     = [\<lparr>url = ''https://newsapi.org/v2/top-headlines'',
         params = [(''apiKey'', PVal (Str ''k'')), (''sources'', PArr [Str ''bbc-news'']),
                   (''pageSize'', PNum (Fin 100))]\<rparr>]
   \<and> map_of (axios_rendered (params
        (getLatestStories_request (\<lambda>s. Fin 250) ''k'' ''bbc-news'' (Str ''250''))))
        ''pageSize'' = Some (PNum (Fin 100))"
  using fetch_one_request_pageSize [of "\<lambda>s. Fin 250" "\<lambda>v. []" "\<lambda>r. Inl NoResponse" "''k''"
      "''bbc-news''" "Str ''250''" "''250''" 250]
  by (simp add: getLatestStories_request_def TOP_HEADLINES_URL_def NEWS_API_URL_def)

text \<open>
  Claim C1 as the specification words it has the \<open>pageSize\<close> parameter left out when no
  limit is given. For \<^verbatim>\<open>fetch bbc-news\<close> the parameter is among those axios renders.
\<close>

theorem pageSize_sent_without_limit:
  "map_of (axios_rendered (params
      (getLatestStories_request (\<lambda>s. NaN) ''k'' ''bbc-news'' Undefined))) ''pageSize''
     = Some (PNum NaN)"
  by (simp add: getLatestStories_request_def axios_rendered_def)

text \<open>
  Claim C5: the search operation percent-encodes the term. It issues one request whose
  \<open>q\<close> parameter is \<^verbatim>\<open>encodeURIComponent\<close> of the term: a string of unreserved characters
  and percent signs only, from which the term is read back.
\<close>

theorem searchStories_percent_encodes_term:
  "fst (searchStories net key t) = [Request (searchStories_request key t)]
   \<and> map_of (params (searchStories_request key t)) ''q''
       = Some (PVal (Str (encodeURIComponent t)))
   \<and> list_all (\<lambda>c. uri_unreserved c \<or> c = CHR ''%'') (encodeURIComponent t)
   \<and> percent_decode (encodeURIComponent t) = Some t"
  by (simp add: searchStories_def searchStories_request_def Let_def
        encodeURIComponent_safe percent_decode_encode)

text \<open>
  Claim C6: the sources listing forwards the category as it is given. The \<^verbatim>\<open>params\<close>
  object holds the value unchanged; when a category is set the rendered parameters carry
  that string, and when it is unset (\<^verbatim>\<open>undefined\<close>) they carry no \<open>category\<close> at all.
\<close>

theorem getNewsSources_forwards_category:
  "fst (getNewsSources net key category) = [Request (getNewsSources_request key category)]
   \<and> map_of (params (getNewsSources_request key category)) ''category'' = Some (PVal category)
   \<and> map_of (axios_rendered (params (getNewsSources_request key (Str c)))) ''category''
       = Some (PVal (Str c))
   \<and> map_of (axios_rendered (params (getNewsSources_request key Undefined))) ''category''
       = None"
  by (simp add: getNewsSources_def getNewsSources_request_def axios_rendered_def Let_def)

subsection \<open>The presenter\<close>

text \<open>
  Claim C2, at the empty sequence. The article renderer prints the single notice
  \<^verbatim>\<open>No results found.\<close>; the source renderer has no such case and prints nothing.
\<close>

theorem printSources_empty_prints_nothing:
  "printSources [] = []
   \<and> printStories fmt_date [] = [Log (chalk [Bold, Red] (plain ''\<newline> No results found.''))]"
  by (simp add: printSources_def printStories_def)

text \<open>
  Claim C8: two articles are rendered as two blocks of five lines, in the order of the
  input; the lines of a block hold the title, the author, the description, the url and
  the formatted date of publication of its article. The first two parts state it for any
  two articles, each field as \<^verbatim>\<open>String\<close> writes it; the last two for articles whose
  fields are strings, where every line is given with its styles and then as plain
  characters: the strings themselves appear, unchanged.
\<close>

theorem printStories_two_articles:
  "length (printStories fmt_date [a, b]) = 10
   \<and> map characters (logs_of (printStories fmt_date [a, b])) =
       [ToString (title a),
        ''by '' @ ToString (author a),
        ToString (description a),
        ''Link: '' @ ToString (article.url a),
        ''Published '' @ fmt_date (publishedAt a) @ '' \<newline>'',
        ToString (title b),
        ''by '' @ ToString (author b),
        ToString (description b),
        ''Link: '' @ ToString (article.url b),
        ''Published '' @ fmt_date (publishedAt b) @ '' \<newline>'']
   \<and> printStories fmt_date
         [\<lparr>author = Str au, title = Str ti, description = Str de, url = Str u,
           publishedAt = p\<rparr>,
          \<lparr>author = Str au', title = Str ti', description = Str de', url = Str u',
           publishedAt = p'\<rparr>] =
       [Log [([Bold, Underline, Yellow], ti)],
        Log [([], ''by ''), ([Green], au)],
        Log [([Italic], de)],
        Log [([Bold], ''Link:''), ([], '' ''), ([Cyan], u)],
        Log [([Bold], ''Published''), ([], '' ''), ([Red], fmt_date p), ([], '' \<newline>'')],
        Log [([Bold, Underline, Yellow], ti')],
        Log [([], ''by ''), ([Green], au')],
        Log [([Italic], de')],
        Log [([Bold], ''Link:''), ([], '' ''), ([Cyan], u')],
        Log [([Bold], ''Published''), ([], '' ''), ([Red], fmt_date p'), ([], '' \<newline>'')]]
   \<and> map characters (logs_of (printStories fmt_date
         [\<lparr>author = Str au, title = Str ti, description = Str de, url = Str u,
           publishedAt = p\<rparr>,
          \<lparr>author = Str au', title = Str ti', description = Str de', url = Str u',
           publishedAt = p'\<rparr>])) =
       [ti, ''by '' @ au, de, ''Link: '' @ u, ''Published '' @ fmt_date p @ '' \<newline>'',
        ti', ''by '' @ au', de', ''Link: '' @ u', ''Published '' @ fmt_date p' @ '' \<newline>'']"
  by (simp add: printStories_def printStory_def characters_def plain_def chalk_def)

subsection \<open>Failures\<close>

text \<open>
  Claim C3, at a failure without response. The handler of the search command throws
  while it reads \<^verbatim>\<open>err.response.status\<close>: no message is written, generic or other, and
  the indicator keeps running.
\<close>

theorem search_without_response_reports_nothing:
  "search_action fmt_date (\<lambda>r. Inl NoResponse) key t =
     ([SpinnerStart (plain ''Scraping all news sources for stories that match term ''
                     @ chalk [Bold] (plain t) @ plain ''...''),
       Request (searchStories_request key t)],
      Some TypeError)
   \<and> errors_of (fst (search_action fmt_date (\<lambda>r. Inl NoResponse) key t)) = []
   \<and> spinner_active False (fst (search_action fmt_date (\<lambda>r. Inl NoResponse) key t))"
  by (simp add: search_action_def search_spinner_def searchStories_def search_catch_def Let_def)

text \<open>
  Claim C4, as the code has it. \<^verbatim>\<open>throwError\<close>, called with the running indicator, writes
  exactly one message, a line break followed by the text in bold red, and then
  stops the indicator. The fetch command reports every failure so, with one message for
  all of them; the search command reports so every failure that carries a response, with
  the rate-limit message for status 403 and its generic message for any other status. No
  message is particular to a failure of the network.
\<close>

theorem failure_reported_once_spinner_stopped:
  "throwError msg (Some sp) =
     ([Error (plain ''\<newline>'' @ chalk [Bold, Red] (plain msg)), SpinnerStop], None)
   \<and> (net (getLatestStories_request s2n key source limit) = Inl err \<longrightarrow>
       fetch_action s2n fmt_date net key source limit =
         ([SpinnerStart (chalk [Green] (plain ''fetching latest stories from ''
                           @ chalk [Bold, Underline, Green, BgBlue] (plain source))),
           Request (getLatestStories_request s2n key source limit),
           Error (plain ''\<newline>'' @ chalk [Bold, Red] (plain
             ''There has been a problem fetching your news stories. Please try again later.'')),
           SpinnerStop],
          None))
   \<and> (net' (searchStories_request key t) = Inl (HttpStatus st) \<longrightarrow>
       search_action fmt_date net' key t =
         ([SpinnerStart (plain ''Scraping all news sources for stories that match term ''
                         @ chalk [Bold] (plain t) @ plain ''...''),
           Request (searchStories_request key t),
           Error (plain ''\<newline>'' @ chalk [Bold, Red] (plain
             (if st = 403
              then ''You have hit the rate limit on the News API. Please try again later.''
              else ''There has been a problem executing your search. Please try again later.''))),
           SpinnerStop],
          None))"
  using fetch_action_failure search_action_status_failure
  by (simp add: throwError_with_spinner)

text \<open>
  The claim at concrete inputs: a fetch that gets no response, and a search that is
  answered with status 403.
\<close>

theorem failure_reported_once_spinner_stopped_witness:
  "fetch_action (\<lambda>s. NaN) (\<lambda>v. []) (\<lambda>r. Inl NoResponse) ''k'' ''bbc-news'' Undefined =
     ([SpinnerStart [([Green], ''fetching latest stories from ''),
                     ([Green, Bold, Underline, Green, BgBlue], ''bbc-news'')],
       Request (getLatestStories_request (\<lambda>s. NaN) ''k'' ''bbc-news'' Undefined),
       Error [([], ''\<newline>''),
              ([Bold, Red],
               ''There has been a problem fetching your news stories. Please try again later.'')],
       SpinnerStop],
      None)
   \<and> search_action (\<lambda>v. []) (\<lambda>r. Inl (HttpStatus 403)) ''k'' ''mars'' =
     ([SpinnerStart [([], ''Scraping all news sources for stories that match term ''),
                     ([Bold], ''mars''), ([], ''...'')],
       Request (searchStories_request ''k'' ''mars''),
       Error [([], ''\<newline>''),
              ([Bold, Red],
               ''You have hit the rate limit on the News API. Please try again later.'')],
       SpinnerStop],
      None)"
  using failure_reported_once_spinner_stopped [of _ _ "\<lambda>r. Inl NoResponse" "\<lambda>s. NaN" "''k''"
      "''bbc-news''" Undefined NoResponse "\<lambda>v. []" "\<lambda>r. Inl (HttpStatus 403)" "''mars''" 403]
  by (simp add: plain_def chalk_def)

text \<open>
  Claim C4 as the specification words it has the message tell a failure of the network
  from a generic one. The fetch command writes the same message for a request that got
  no response and for one answered with status 500.
\<close>

theorem network_failure_not_distinguished:
  "errors_of (fst (fetch_action (\<lambda>s. NaN) (\<lambda>v. []) (\<lambda>r. Inl NoResponse) ''k''
      ''bbc-news'' Undefined))
     = [[([], ''\<newline>''),
         ([Bold, Red],
          ''There has been a problem fetching your news stories. Please try again later.'')]]
   \<and> errors_of (fst (fetch_action (\<lambda>s. NaN) (\<lambda>v. []) (\<lambda>r. Inl (HttpStatus 500)) ''k''
      ''bbc-news'' Undefined))
     = [[([], ''\<newline>''),
         ([Bold, Red],
          ''There has been a problem fetching your news stories. Please try again later.'')]]"
  by (simp add: fetch_action_failure plain_def chalk_def)

text \<open>
  The failure path of the sources command, for the record: \<^verbatim>\<open>throwError\<close> is called
  without the indicator, so it throws after the message is written, and neither it nor the
  handler stops the indicator.
\<close>

lemma sources_action_failure:
  "net (getNewsSources_request key category) = Inl err \<Longrightarrow>
   sources_action net key category =
     ([SpinnerStart (plain ''Fetching news sources..''),
       Request (getNewsSources_request key category),
       Error (plain ''\<newline>'' @ chalk [Bold, Red] (plain
         ''There has been a problem fetching your news sources. Please try again later.''))],
      Some TypeError)"
  by (simp add: sources_action_def sources_spinner_def getNewsSources_def Let_def
        throwError_without_spinner)

text \<open>
  Claim C9: the handler of the search command reads \<^verbatim>\<open>err.response.status\<close> without a
  check. On an error without response it throws and writes nothing; on an error with a
  response it writes its message and stops the indicator. It returns normally exactly
  when the error carries a response.
\<close>

theorem search_catch_faults_without_response:
  "search_catch sp NoResponse = ([], Some TypeError)
   \<and> search_catch sp (HttpStatus st) =
       ([Error (plain ''\<newline>'' @ chalk [Bold, Red] (plain
           (if st = 403
            then ''You have hit the rate limit on the News API. Please try again later.''
            else ''There has been a problem executing your search. Please try again later.''))),
         SpinnerStop], None)
   \<and> (snd (search_catch sp err) = None) = (response_status err \<noteq> None)"
  by (cases err) (simp_all add: search_catch_def throwError_with_spinner)

subsection \<open>The commands\<close>

text \<open>
  Claim C7: with no operand on the command line the program prints the usage text and
  exits with code 0; it issues no request.
\<close>

theorem no_subcommand_prints_help:
  "run_program s2n fmt_date net env NoArguments = ([OutputHelp, Exit 0], None)
   \<and> requests_of (fst (run_program s2n fmt_date net env NoArguments)) = []"
  by (simp add: run_program_def)

text \<open>
  Claim C10: when the request of the fetch command succeeds, the indicator is stopped, then
  the value of the limit option is logged as it is, and only then the articles are
  rendered. The first part states it for any limit; the second for a limit that was given,
  whose string is the line that is logged, unchanged; the third for no limit, where the
  line is \<^verbatim>\<open>undefined\<close>.
\<close>

theorem fetch_success_logs_limit:
  "(net (getLatestStories_request s2n key source limit) = Inr b \<longrightarrow>
      fetch_action s2n fmt_date net key source limit =
        ([SpinnerStart (chalk [Green] (plain ''fetching latest stories from ''
                          @ chalk [Bold, Underline, Green, BgBlue] (plain source))),
          Request (getLatestStories_request s2n key source limit),
          SpinnerStop,
          Log (plain (ToString limit))]
         @ printStories fmt_date (articles b),
         None))
   \<and> (net (getLatestStories_request s2n key source (Str l)) = Inr b \<longrightarrow>
      fetch_action s2n fmt_date net key source (Str l) =
        ([SpinnerStart [([Green], ''fetching latest stories from ''),
                        ([Green, Bold, Underline, Green, BgBlue], source)],
          Request (getLatestStories_request s2n key source (Str l)),
          SpinnerStop,
          Log [([], l)]]
         @ printStories fmt_date (articles b),
         None))
   \<and> (net (getLatestStories_request s2n key source Undefined) = Inr b \<longrightarrow>
      fetch_action s2n fmt_date net key source Undefined =
        ([SpinnerStart [([Green], ''fetching latest stories from ''),
                        ([Green, Bold, Underline, Green, BgBlue], source)],
          Request (getLatestStories_request s2n key source Undefined),
          SpinnerStop,
          Log [([], ''undefined'')]]
         @ printStories fmt_date (articles b),
         None))"
  by (simp add: fetch_action_success plain_def chalk_def)

text \<open>
  The claim at concrete inputs: \<^verbatim>\<open>fetch bbc-news -l 5\<close> answered with one article logs the
  line \<^verbatim>\<open>5\<close> between the stop of the indicator and the block of the article;
  \<^verbatim>\<open>fetch bbc-news\<close> answered with no article logs \<^verbatim>\<open>undefined\<close> before the notice.
\<close>

theorem fetch_success_logs_limit_witness:
  "fetch_action (\<lambda>s. Fin 5) (\<lambda>v. ''Tue Nov 03 2026'')
      (\<lambda>r. Inr \<lparr>articles = [\<lparr>author = Str ''Ann'', title = Str ''Rain'',
                                 description = Str ''Wet'', url = Str ''http://x/1'',
                                 publishedAt = Str ''2026-11-03''\<rparr>],
                    sources = []\<rparr>) ''k'' ''bbc-news'' (Str ''5'') =
     ([SpinnerStart [([Green], ''fetching latest stories from ''),
                     ([Green, Bold, Underline, Green, BgBlue], ''bbc-news'')],
       Request \<lparr>url = ''https://newsapi.org/v2/top-headlines'',
                params = [(''apiKey'', PVal (Str ''k'')), (''sources'', PArr [Str ''bbc-news'']),
                          (''pageSize'', PNum (Fin 5))]\<rparr>,
       SpinnerStop,
       Log [([], ''5'')],
       Log [([Bold, Underline, Yellow], ''Rain'')],
       Log [([], ''by ''), ([Green], ''Ann'')],
       Log [([Italic], ''Wet'')],
       Log [([Bold], ''Link:''), ([], '' ''), ([Cyan], ''http://x/1'')],
       Log [([Bold], ''Published''), ([], '' ''), ([Red], ''Tue Nov 03 2026''),
            ([], '' \<newline>'')]],
      None)
   \<and> fetch_action (\<lambda>s. Fin 5) (\<lambda>v. ''Tue Nov 03 2026'')
      (\<lambda>r. Inr \<lparr>articles = [], sources = []\<rparr>) ''k'' ''bbc-news'' Undefined =
     ([SpinnerStart [([Green], ''fetching latest stories from ''),
                     ([Green, Bold, Underline, Green, BgBlue], ''bbc-news'')],
       Request \<lparr>url = ''https://newsapi.org/v2/top-headlines'',
                params = [(''apiKey'', PVal (Str ''k'')), (''sources'', PArr [Str ''bbc-news'']),
                          (''pageSize'', PNum NaN)]\<rparr>,
       SpinnerStop,
       Log [([], ''undefined'')],
       Log [([Bold, Red], ''\<newline> No results found.'')]],
      None)"
proof -
  let ?one = "\<lparr>articles = [\<lparr>author = Str ''Ann'', title = Str ''Rain'',
                                 description = Str ''Wet'', url = Str ''http://x/1'',
                                 publishedAt = Str ''2026-11-03''\<rparr>],
                    sources = []\<rparr>"
  let ?none = "\<lparr>articles = [], sources = []\<rparr>"
  have r: "getLatestStories_request (\<lambda>s. Fin 5) ''k'' ''bbc-news'' lim =
      \<lparr>url = ''https://newsapi.org/v2/top-headlines'',
       params = [(''apiKey'', PVal (Str ''k'')), (''sources'', PArr [Str ''bbc-news'']),
                 (''pageSize'', PNum (Math_min (Fin 100) (ToNumber (\<lambda>s. Fin 5) lim)))]\<rparr>" for lim
    by (simp add: getLatestStories_request_def TOP_HEADLINES_URL_def NEWS_API_URL_def)
  have a: "fetch_action (\<lambda>s. Fin 5) (\<lambda>v. ''Tue Nov 03 2026'') (\<lambda>r. Inr ?one) ''k'' ''bbc-news''
      (Str ''5'') =
     ([SpinnerStart [([Green], ''fetching latest stories from ''),
                     ([Green, Bold, Underline, Green, BgBlue], ''bbc-news'')],
       Request (getLatestStories_request (\<lambda>s. Fin 5) ''k'' ''bbc-news'' (Str ''5'')),
       SpinnerStop,
       Log [([], ''5'')]]
      @ printStories (\<lambda>v. ''Tue Nov 03 2026'') (articles ?one), None)"
    using fetch_success_logs_limit [of "\<lambda>r. Inr ?one" "\<lambda>s. Fin 5" "''k''" "''bbc-news''"
        "Str ''5''" ?one "\<lambda>v. ''Tue Nov 03 2026''" "''5''"]
    by (simp add: plain_def chalk_def)
  have b: "fetch_action (\<lambda>s. Fin 5) (\<lambda>v. ''Tue Nov 03 2026'') (\<lambda>r. Inr ?none) ''k'' ''bbc-news''
      Undefined =
     ([SpinnerStart [([Green], ''fetching latest stories from ''),
                     ([Green, Bold, Underline, Green, BgBlue], ''bbc-news'')],
       Request (getLatestStories_request (\<lambda>s. Fin 5) ''k'' ''bbc-news'' Undefined),
       SpinnerStop,
       Log [([], ''undefined'')]]
      @ printStories (\<lambda>v. ''Tue Nov 03 2026'') (articles ?none), None)"
    using fetch_success_logs_limit [of "\<lambda>r. Inr ?none" "\<lambda>s. Fin 5" "''k''" "''bbc-news''"
        Undefined ?none "\<lambda>v. ''Tue Nov 03 2026''" "''5''"]
    by (simp add: plain_def chalk_def)
  show ?thesis
    unfolding a b r
    by (simp add: printStories_def printStory_def plain_def chalk_def)
qed

end
